theory Spec2Isabelle
  imports Complex_Main
begin

section \<open>JavaScript numbers used by the progress percentages\<close>

text \<open>
  The percentages of \<open>src/lib/scraper.ts\<close> are JavaScript numbers computed by
  division, multiplication by a positive constant and \<open>Math.round\<close>.  A division by
  zero gives \<open>NaN\<close> or an infinity there, so the model keeps these values apart from
  the finite ones (rationals; the sign of zero is not tracked).
\<close>

datatype jsnum = Num rat | PosInf | NegInf | NaN

definition js_div :: "rat \<Rightarrow> rat \<Rightarrow> jsnum" where
  "js_div a b =
     (if b \<noteq> 0 then Num (a / b)
      else if a = 0 then NaN
      else if 0 < a then PosInf else NegInf)"

text \<open>Multiplication by a positive finite constant \<open>c\<close>, and addition of a finite one.\<close>

fun js_scale :: "jsnum \<Rightarrow> rat \<Rightarrow> jsnum" where
  "js_scale (Num x) c = Num (x * c)"
| "js_scale PosInf c = PosInf"
| "js_scale NegInf c = NegInf"
| "js_scale NaN c = NaN"

fun js_plus :: "rat \<Rightarrow> jsnum \<Rightarrow> jsnum" where
  "js_plus c (Num x) = Num (c + x)"
| "js_plus c PosInf = PosInf"
| "js_plus c NegInf = NegInf"
| "js_plus c NaN = NaN"

text \<open>\<open>Math.round\<close>: the nearest integer, halves rounded up.\<close>

fun Math_round :: "jsnum \<Rightarrow> jsnum" where
  "Math_round (Num x) = Num (of_int \<lfloor>x + 1 / 2\<rfloor>)"
| "Math_round PosInf = PosInf"
| "Math_round NegInf = NegInf"
| "Math_round NaN = NaN"




section \<open>Data model (\<open>src/types\<close>)\<close>

datatype ScrapingState = running | paused | cancelled | completed

datatype ProgressStatus =
  st_idle | st_searching | st_scraping | st_paused | st_cancelled | st_completed | st_error

record ScrapingProgress =
  status :: ProgressStatus
  currentStep :: string
  progress :: jsnum
  totalFound :: int
  scraped :: nat
  errors :: "string list"

text \<open>
  \<open>BusinessData\<close>.  The identifier \<open>business_<Date.now()>_<index>\<close> is kept as the pair
  of its two numbers; optional fields are \<open>option\<close>s (\<open>undefined\<close> is \<open>None\<close>).
\<close>

record BusinessData =
  ident :: "nat \<times> nat"
  name :: string
  address :: string
  phone :: "string option"
  website :: "string option"
  rating :: "rat option"
  reviewCount :: "nat option"
  category :: "string option"
  hours :: "string option"
  coordinates :: "(rat \<times> rat) option"
  scrapedAt :: nat

record SearchParams =
  location :: string
  categories :: "string list"
  radius :: int
  maxResults :: int


section \<open>The scraper instance and its control methods\<close>

text \<open>
  The fields of class \<open>GoogleMapsScraper\<close> that the control flow reads and writes.
  \<open>emitted\<close> is the sequence of snapshots handed to \<open>progressCallback\<close>, oldest
  first.  \<open>browser\<close> tells whether \<open>this.browser\<close> is set.  Pages are numbered;
  \<open>openPages\<close> are the pages of the browser that have been created and not closed,
  \<open>page\<close> is the control page \<open>this.page\<close>.
\<close>

record GoogleMapsScraper =
  scrapingState :: ScrapingState
  scrapedBusinesses :: "BusinessData list"
  currentBusinessIndex :: nat
  totalBusinessesToScrape :: int
  businessLinks :: "string list"
  emitted :: "ScrapingProgress list"
  browser :: bool
  page :: "nat option"
  openPages :: "nat list"
  nextPageId :: nat

definition updateProgress :: "ScrapingProgress \<Rightarrow> GoogleMapsScraper \<Rightarrow> GoogleMapsScraper" where
  "updateProgress p s = s\<lparr>emitted := emitted s @ [p]\<rparr>"

text \<open>
  \<open>Math.round((this.currentBusinessIndex / this.totalBusinessesToScrape) * 100)\<close>,
  the percentage of \<open>pause\<close>, \<open>resume\<close> and \<open>cancel\<close>.
\<close>

definition indexPercent :: "nat \<Rightarrow> int \<Rightarrow> jsnum" where
  "indexPercent i n = Math_round (js_scale (js_div (of_nat i) (of_int n)) 100)"

definition pause :: "GoogleMapsScraper \<Rightarrow> GoogleMapsScraper" where
  "pause s =
     updateProgress
       \<lparr>status = st_paused, currentStep = ''Scraping paused by user'',
        progress = indexPercent (currentBusinessIndex s) (totalBusinessesToScrape s),
        totalFound = totalBusinessesToScrape s,
        scraped = length (scrapedBusinesses s), errors = []\<rparr>
       (s\<lparr>scrapingState := paused\<rparr>)"

definition resume :: "GoogleMapsScraper \<Rightarrow> GoogleMapsScraper" where
  "resume s =
     updateProgress
       \<lparr>status = st_scraping, currentStep = ''Scraping resumed...'',
        progress = indexPercent (currentBusinessIndex s) (totalBusinessesToScrape s),
        totalFound = totalBusinessesToScrape s,
        scraped = length (scrapedBusinesses s), errors = []\<rparr>
       (s\<lparr>scrapingState := running\<rparr>)"

definition cancel :: "GoogleMapsScraper \<Rightarrow> GoogleMapsScraper" where
  "cancel s =
     updateProgress
       \<lparr>status = st_cancelled, currentStep = ''Scraping cancelled by user'',
        progress = indexPercent (currentBusinessIndex s) (totalBusinessesToScrape s),
        totalFound = totalBusinessesToScrape s,
        scraped = length (scrapedBusinesses s), errors = []\<rparr>
       (s\<lparr>scrapingState := cancelled\<rparr>)"

definition getState :: "GoogleMapsScraper \<Rightarrow> ScrapingState" where
  "getState s = scrapingState s"

definition isCancelled :: "GoogleMapsScraper \<Rightarrow> bool" where
  "isCancelled s = (scrapingState s = cancelled)"

definition isPaused :: "GoogleMapsScraper \<Rightarrow> bool" where
  "isPaused s = (scrapingState s = paused)"

text \<open>
  The control route (\<open>POST\<close> with an action) calls one of the three methods on the
  active instance; a run of the route's calls is a list of actions.
\<close>

datatype ControlAction = Pause | Resume | Cancel

fun control :: "ControlAction \<Rightarrow> GoogleMapsScraper \<Rightarrow> GoogleMapsScraper" where
  "control Pause s = pause s"
| "control Resume s = resume s"
| "control Cancel s = cancel s"

fun controls :: "ControlAction list \<Rightarrow> GoogleMapsScraper \<Rightarrow> GoogleMapsScraper" where
  "controls [] s = s"
| "controls (a # as) s = controls as (control a s)"

text \<open>The state an action writes.\<close>

fun written :: "ControlAction \<Rightarrow> ScrapingState" where
  "written Pause = paused"
| "written Resume = running"
| "written Cancel = cancelled"

text \<open>
  A freshly constructed instance after \<open>initialize()\<close>: the field initialisers of the
  class, one control page (number 0) open.
\<close>

definition newScraper :: GoogleMapsScraper where
  "newScraper =
     \<lparr>scrapingState = running, scrapedBusinesses = [], currentBusinessIndex = 0,
      totalBusinessesToScrape = 0, businessLinks = [], emitted = [],
      browser = True, page = Some 0, openPages = [0], nextPageId = 1\<rparr>"


section \<open>Control state machine\<close>

lemma scrapingState_updateProgress [simp]:
  "scrapingState (updateProgress p s) = scrapingState s"
  by (simp add: updateProgress_def)

lemma scrapingState_control [simp]: "scrapingState (control a s) = written a"
  by (cases a) (simp_all add: pause_def resume_def cancel_def)

lemma controls_append: "controls (as @ bs) s = controls bs (controls as s)"
  by (induction as arbitrary: s) simp_all

text \<open>
  C1 (as the claim states it, refuted): the claim says that once the state is
  \<open>cancelled\<close> or \<open>completed\<close> no later \<open>pause()\<close>, \<open>resume()\<close> or \<open>cancel()\<close>
  changes it.  On a fresh instance, \<open>cancel()\<close> gives \<open>cancelled\<close> and a following
  \<open>resume()\<close> gives \<open>running\<close>; likewise \<open>pause()\<close> on a completed instance gives
  \<open>paused\<close>.
\<close>

theorem C1_cancelled_is_left_by_resume:
  "getState (cancel newScraper) = cancelled
   \<and> getState (resume (cancel newScraper)) = running
   \<and> getState (pause (newScraper\<lparr>scrapingState := completed\<rparr>)) = paused"
  by (simp add: getState_def cancel_def resume_def pause_def)

text \<open>
  C1 (amended): \<open>pause()\<close>, \<open>resume()\<close> and \<open>cancel()\<close> write \<open>paused\<close>, \<open>running\<close> and
  \<open>cancelled\<close> whatever the state was.  So after any non-empty sequence of control
  calls the state is the one written by the last call, it is never \<open>completed\<close>, and
  the calls realise the transitions running to paused, paused to running and
  running or paused to cancelled; an empty sequence leaves the state as it was.
\<close>

theorem C1_last_control_call_decides:
  "getState (controls (as @ [a]) s) = written a
   \<and> getState (controls (as @ [a]) s) \<noteq> completed
   \<and> getState (controls [] s) = getState s
   \<and> getState (pause (s\<lparr>scrapingState := running\<rparr>)) = paused
   \<and> getState (resume (s\<lparr>scrapingState := paused\<rparr>)) = running
   \<and> getState (cancel (s\<lparr>scrapingState := running\<rparr>)) = cancelled
   \<and> getState (cancel (s\<lparr>scrapingState := paused\<rparr>)) = cancelled"
proof -
  have last: "getState (controls (as @ [a]) s) = written a"
    by (simp add: controls_append getState_def)
  have "written a \<noteq> completed"
    by (cases a) simp_all
  with last show ?thesis
    by (simp add: getState_def pause_def resume_def cancel_def)
qed


section \<open>Harvesting the target links\<close>

text \<open>
  \<open>String.prototype.includes\<close>, and the truthiness filter \<open>.filter(Boolean)\<close> on a list
  of \<open>getAttribute('href')\<close> results (\<open>null\<close> is \<open>None\<close>; \<open>null\<close> and the empty string
  are dropped).
\<close>

fun str_includes :: "string \<Rightarrow> string \<Rightarrow> bool" where
  "str_includes [] sub = (sub = [])"
| "str_includes (c # cs) sub = (take (length sub) (c # cs) = sub \<or> str_includes cs sub)"

definition filterBoolean :: "string option list \<Rightarrow> string list" where
  "filterBoolean as =
     List.map_filter (\<lambda>a. case a of None \<Rightarrow> None | Some h \<Rightarrow> if h = [] then None else Some h) as"

text \<open>
  \<open>Array.from(new Set(xs))\<close>: a \<open>Set\<close> keeps insertion order, and adding a value that
  is already a member changes nothing.
\<close>

fun Set_addAll :: "'a list \<Rightarrow> 'a list \<Rightarrow> 'a list" where
  "Set_addAll acc [] = acc"
| "Set_addAll acc (x # xs) = Set_addAll (if x \<in> set acc then acc else acc @ [x]) xs"

definition Array_from_Set :: "'a list \<Rightarrow> 'a list" where
  "Array_from_Set xs = Set_addAll [] xs"

text \<open>
  What the page answers to the three \<open>$$eval\<close> calls: the \<open>href\<close> attribute of every
  matched element, or \<open>None\<close> when the call throws.
\<close>

record HarvestEnv =
  directionAnchors :: "string option list option"
  placeAnchors :: "string option list option"
  entryAnchors :: "string option list option"

text \<open>The callback of method 3 maps an element to its \<open>href\<close> or to \<open>null\<close>.\<close>

definition entryHref :: "string option \<Rightarrow> string option" where
  "entryHref h =
     (case h of
        None \<Rightarrow> None
      | Some href \<Rightarrow> if href \<noteq> [] \<and> str_includes href ''/maps/place/'' then Some href else None)"

text \<open>The result of each strategy; a strategy that throws contributes nothing.\<close>

definition method1Links :: "HarvestEnv \<Rightarrow> string list" where
  "method1Links e = (case directionAnchors e of None \<Rightarrow> [] | Some as \<Rightarrow> filterBoolean as)"

definition method2Links :: "HarvestEnv \<Rightarrow> string list" where
  "method2Links e = (case placeAnchors e of None \<Rightarrow> [] | Some as \<Rightarrow> filterBoolean as)"

definition method3Links :: "HarvestEnv \<Rightarrow> string list" where
  "method3Links e =
     (case entryAnchors e of None \<Rightarrow> [] | Some as \<Rightarrow> filterBoolean (map entryHref as))"

definition validLink :: "string \<Rightarrow> bool" where
  "validLink link = (link \<noteq> [] \<and> str_includes link ''/maps/place/'' \<and> 10 < length link)"

text \<open>Lines 289 to 343 of \<open>scrapeBusinesses\<close>.\<close>

definition harvestLinks :: "HarvestEnv \<Rightarrow> string list" where
  "harvestLinks e =
     (let businessLinks =
            (case directionAnchors e of None \<Rightarrow> [] | Some as \<Rightarrow> filterBoolean as);
          businessLinks =
            (case placeAnchors e of
               None \<Rightarrow> businessLinks
             | Some as \<Rightarrow> Array_from_Set (businessLinks @ filterBoolean as));
          businessLinks =
            (case entryAnchors e of
               None \<Rightarrow> businessLinks
             | Some as \<Rightarrow> Array_from_Set (businessLinks @ filterBoolean (map entryHref as)))
      in filter validLink (Array_from_Set businessLinks))"

lemma set_Set_addAll: "set (Set_addAll acc xs) = set acc \<union> set xs"
  by (induction xs arbitrary: acc) auto

lemma distinct_Set_addAll: "distinct acc \<Longrightarrow> distinct (Set_addAll acc xs)"
  by (induction xs arbitrary: acc) auto

lemma set_Array_from_Set [simp]: "set (Array_from_Set xs) = set xs"
  by (simp add: Array_from_Set_def set_Set_addAll)

lemma distinct_Array_from_Set [simp]: "distinct (Array_from_Set xs)"
  by (simp add: Array_from_Set_def distinct_Set_addAll)

lemma set_harvestLinks:
  "set (harvestLinks e) =
     {l \<in> set (method1Links e) \<union> set (method2Links e) \<union> set (method3Links e). validLink l}"
  by (auto simp: harvestLinks_def Let_def method1Links_def method2Links_def method3Links_def
           split: option.splits)

lemma distinct_harvestLinks: "distinct (harvestLinks e)"
  by (simp add: harvestLinks_def Let_def)

lemma count_list_distinct:
  "distinct xs \<Longrightarrow> count_list xs x = (if x \<in> set xs then 1 else 0)"
  by (induction xs) auto

text \<open>
  C6 (as the claim states it, refuted): a direction-link anchor whose \<open>href\<close> is longer
  than ten characters but does not contain \<open>/maps/place/\<close> is harvested by the first
  strategy, is not short, and yet is absent from the final list.
\<close>

theorem C6_direction_link_dropped:
  "method1Links \<lparr>directionAnchors = Some [Some ''https://www.google.com/maps/dir//Cafe+Central''],
                 placeAnchors = Some [], entryAnchors = Some []\<rparr>
     = [''https://www.google.com/maps/dir//Cafe+Central'']
   \<and> 10 < length ''https://www.google.com/maps/dir//Cafe+Central''
   \<and> harvestLinks \<lparr>directionAnchors = Some [Some ''https://www.google.com/maps/dir//Cafe+Central''],
                   placeAnchors = Some [], entryAnchors = Some []\<rparr> = []"
  by (simp add: method1Links_def harvestLinks_def filterBoolean_def List.map_filter_def
        Array_from_Set_def validLink_def)

text \<open>
  C6 (amended): the final list holds exactly the tokens that some strategy harvested
  and that contain \<open>/maps/place/\<close> and are longer than ten characters; it has no
  duplicates, so each such token occurs exactly once, however many strategies
  harvested it, and every other token occurs zero times.
\<close>

theorem C6_harvest_is_filtered_union:
  "set (harvestLinks e) =
     {l \<in> set (method1Links e) \<union> set (method2Links e) \<union> set (method3Links e).
        str_includes l ''/maps/place/'' \<and> 10 < length l}
   \<and> distinct (harvestLinks e)
   \<and> count_list (harvestLinks e) l =
       (if l \<in> set (method1Links e) \<union> set (method2Links e) \<union> set (method3Links e)
           \<and> str_includes l ''/maps/place/'' \<and> 10 < length l
        then 1 else 0)"
proof -
  have v: "validLink x = (str_includes x ''/maps/place/'' \<and> 10 < length x)" for x
    by (auto simp: validLink_def)
  have s: "set (harvestLinks e) =
     {l \<in> set (method1Links e) \<union> set (method2Links e) \<union> set (method3Links e).
        str_includes l ''/maps/place/'' \<and> 10 < length l}"
    by (simp add: set_harvestLinks v)
  have c: "count_list (harvestLinks e) l = (if l \<in> set (harvestLinks e) then 1 else 0)"
    by (rule count_list_distinct) (rule distinct_harvestLinks)
  show ?thesis
    unfolding c unfolding s by (simp add: distinct_harvestLinks)
qed


section \<open>Discovery: the scroll loop\<close>

text \<open>
  \<open>waitForResume\<close> sleeps one second at a time while the state is \<open>paused\<close>.  The
  argument lists the control calls that arrive during each successive sleep; when the
  list is used up no further call arrives, and a wait that is still paused then never
  returns (\<open>None\<close>).
\<close>

fun waitForResume :: "ControlAction list list \<Rightarrow> GoogleMapsScraper \<Rightarrow> GoogleMapsScraper option" where
  "waitForResume [] s = (if scrapingState s = paused then None else Some s)"
| "waitForResume (t # ts) s =
     (if scrapingState s = paused then waitForResume ts (controls t s) else Some s)"

text \<open>
  What one run of the loop body observes, by the number of the iteration (the value of
  \<open>scrollAttempts\<close> after its increment): the control calls that arrived since the
  previous check, the calls arriving while it waits in a pause, the two element
  counts (\<open>None\<close> when \<open>$$eval\<close> throws) and the time the iteration takes, in
  milliseconds.  Scrolling and clicking change the page only, which the counts reflect.
\<close>

record ScrollEnv =
  arrivals :: "nat \<Rightarrow> ControlAction list"
  resumeTicks :: "nat \<Rightarrow> ControlAction list list"
  currentCount :: "nat \<Rightarrow> nat option"
  newCount :: "nat \<Rightarrow> nat option"
  duration :: "nat \<Rightarrow> nat"

text \<open>
  The local variables of \<open>scrollAndLoadAllResults\<close>, with the time since the timer was
  set and the value of \<open>scrollAttempts\<close> at which the timer's callback ran, if it did.
\<close>

record ScrollVars =
  scrollAttempts :: nat
  consecutiveNoChange :: nat
  previousBusinessCount :: nat
  lastBusinessCount :: nat
  elapsed :: nat
  timeoutFiredAt :: "nat option"

definition maxScrollAttempts :: "bool \<Rightarrow> nat" where
  "maxScrollAttempts conservativeMode = (if conservativeMode then 15 else 30)"

definition maxConsecutiveNoChange :: "bool \<Rightarrow> nat" where
  "maxConsecutiveNoChange conservativeMode = (if conservativeMode then 3 else 6)"

text \<open>
  The callback of \<open>setTimeout(..., 180000)\<close> writes a log line and returns; the model
  records that it ran and leaves every loop variable as it is.
\<close>

definition scrollTimeoutCallback :: "ScrollVars \<Rightarrow> ScrollVars" where
  "scrollTimeoutCallback v = v\<lparr>timeoutFiredAt := Some (scrollAttempts v)\<rparr>"

definition passTime :: "nat \<Rightarrow> ScrollVars \<Rightarrow> ScrollVars" where
  "passTime d v =
     (let v = v\<lparr>elapsed := elapsed v + d\<rparr>
      in if timeoutFiredAt v = None \<and> 180000 \<le> elapsed v then scrollTimeoutCallback v else v)"

datatype 'a Step = Hang | Return 'a | Break 'a | Continue 'a

definition scrollIteration ::
  "ScrollEnv \<Rightarrow> ScrollVars \<times> GoogleMapsScraper \<Rightarrow> (ScrollVars \<times> GoogleMapsScraper) Step" where
  "scrollIteration e x =
     (let v = (fst x)\<lparr>scrollAttempts := scrollAttempts (fst x) + 1\<rparr>;
          i = scrollAttempts v;
          s = controls (arrivals e i) (snd x)
      in if isCancelled s then Return (v, s)
         else
           (case (if isPaused s then waitForResume (resumeTicks e i) s else Some s) of
              None \<Rightarrow> Hang
            | Some s \<Rightarrow>
                (let currentBusinessCount = (case currentCount e i of None \<Rightarrow> 0 | Some c \<Rightarrow> c);
                     newBusinessCount =
                       (case newCount e i of None \<Rightarrow> currentBusinessCount | Some c \<Rightarrow> c);
                     v = (if currentBusinessCount < newBusinessCount
                          then v\<lparr>consecutiveNoChange := 0,
                                 previousBusinessCount := newBusinessCount,
                                 lastBusinessCount := newBusinessCount\<rparr>
                          else if newBusinessCount = currentBusinessCount \<and> 0 < currentBusinessCount
                          then v\<lparr>consecutiveNoChange := consecutiveNoChange v + 1\<rparr>
                          else v\<lparr>consecutiveNoChange := consecutiveNoChange v + 1\<rparr>);
                     v = passTime (duration e i) v
                 in if 4 \<le> consecutiveNoChange v \<and> 0 < lastBusinessCount v
                    then Break (v, s) else Continue (v, s))))"

lemma scrollAttempts_passTime [simp]: "scrollAttempts (passTime d v) = scrollAttempts v"
  by (simp add: passTime_def scrollTimeoutCallback_def Let_def)

lemma consecutiveNoChange_passTime [simp]:
  "consecutiveNoChange (passTime d v) = consecutiveNoChange v"
  by (simp add: passTime_def scrollTimeoutCallback_def Let_def)

lemma lastBusinessCount_passTime [simp]:
  "lastBusinessCount (passTime d v) = lastBusinessCount v"
  by (simp add: passTime_def scrollTimeoutCallback_def Let_def)

lemma scrollIteration_attempts:
  "scrollIteration e x = Continue y \<or> scrollIteration e x = Break y \<or> scrollIteration e x = Return y
   \<Longrightarrow> scrollAttempts (fst y) = scrollAttempts (fst x) + 1"
  by (auto simp: scrollIteration_def Let_def split: if_splits option.splits)

function scrollLoop ::
  "ScrollEnv \<Rightarrow> nat \<Rightarrow> nat \<Rightarrow> ScrollVars \<times> GoogleMapsScraper
     \<Rightarrow> (ScrollVars \<times> GoogleMapsScraper) option" where
  "scrollLoop e maxA maxN x =
     (if scrollAttempts (fst x) < maxA \<and> consecutiveNoChange (fst x) < maxN
      then (case scrollIteration e x of
              Hang \<Rightarrow> None
            | Return y \<Rightarrow> Some y
            | Break y \<Rightarrow> Some y
            | Continue y \<Rightarrow> scrollLoop e maxA maxN y)
      else Some x)"
  by pat_completeness auto
termination
  by (relation "measure (\<lambda>(e, maxA, maxN, x). maxA - scrollAttempts (fst x))")
     (auto dest!: scrollIteration_attempts [OF disjI1])

definition initialScrollVars :: ScrollVars where
  "initialScrollVars =
     \<lparr>scrollAttempts = 0, consecutiveNoChange = 0, previousBusinessCount = 0,
      lastBusinessCount = 0, elapsed = 0, timeoutFiredAt = None\<rparr>"

definition scrollAndLoadAllResults ::
  "ScrollEnv \<Rightarrow> bool \<Rightarrow> GoogleMapsScraper \<Rightarrow> (ScrollVars \<times> GoogleMapsScraper) option" where
  "scrollAndLoadAllResults e conservativeMode s =
     (if page s = None then Some (initialScrollVars, s)
      else scrollLoop e (maxScrollAttempts conservativeMode)
             (maxConsecutiveNoChange conservativeMode) (initialScrollVars, s))"


text \<open>Iteration \<open>i\<close> observes growth when its second count exceeds its first.\<close>

definition grows :: "ScrollEnv \<Rightarrow> nat \<Rightarrow> bool" where
  "grows e i =
     (let currentBusinessCount = (case currentCount e i of None \<Rightarrow> 0 | Some c \<Rightarrow> c);
          newBusinessCount = (case newCount e i of None \<Rightarrow> currentBusinessCount | Some c \<Rightarrow> c)
      in currentBusinessCount < newBusinessCount)"

lemma scrollLoop_attempts_le:
  "scrollLoop e maxA maxN x = Some y \<Longrightarrow> scrollAttempts (fst x) \<le> maxA
   \<Longrightarrow> scrollAttempts (fst y) \<le> maxA"
proof (induction e maxA maxN x rule: scrollLoop.induct)
  case (1 e maxA maxN x)
  show ?case
  proof (cases "scrollAttempts (fst x) < maxA \<and> consecutiveNoChange (fst x) < maxN")
    case False
    with "1.prems" show ?thesis by simp
  next
    case True
    note run = True
    show ?thesis
    proof (cases "scrollIteration e x")
      case Hang
      with run "1.prems" show ?thesis by simp
    next
      case (Return z)
      with run "1.prems" scrollIteration_attempts [of e x z] show ?thesis by auto
    next
      case (Break z)
      with run "1.prems" scrollIteration_attempts [of e x z] show ?thesis by auto
    next
      case (Continue z)
      with run "1.prems" scrollIteration_attempts [of e x z]
      have "scrollLoop e maxA maxN z = Some y" "scrollAttempts (fst z) \<le> maxA" by auto
      with "1.IH" [OF run Continue] show ?thesis by simp
    qed
  qed
qed

lemma scrollIteration_no_growth:
  "scrollIteration e x = Continue y \<Longrightarrow> \<not> grows e (scrollAttempts (fst x) + 1)
   \<Longrightarrow> consecutiveNoChange (fst y) = consecutiveNoChange (fst x) + 1"
  by (auto simp: scrollIteration_def grows_def Let_def split: if_splits option.splits)

lemma scrollLoop_window:
  assumes "scrollLoop e maxA maxN x = Some y"
    and "\<forall>i. k < i \<and> i \<le> k + maxN \<longrightarrow> \<not> grows e i"
    and "scrollAttempts (fst x) \<le> k
         \<or> (scrollAttempts (fst x) \<le> k + maxN
            \<and> scrollAttempts (fst x) - k \<le> consecutiveNoChange (fst x))"
  shows "scrollAttempts (fst y) \<le> k + maxN"
  using assms
proof (induction e maxA maxN x rule: scrollLoop.induct)
  case (1 e maxA maxN x)
  show ?case
  proof (cases "scrollAttempts (fst x) < maxA \<and> consecutiveNoChange (fst x) < maxN")
    case False
    with "1.prems" show ?thesis by auto
  next
    case True
    note run = True
    from run "1.prems"(3) have lt: "scrollAttempts (fst x) < k + maxN" by auto
    show ?thesis
    proof (cases "scrollIteration e x")
      case Hang
      with run "1.prems" show ?thesis by simp
    next
      case (Return z)
      with run "1.prems" lt scrollIteration_attempts [of e x z] show ?thesis by auto
    next
      case (Break z)
      with run "1.prems" lt scrollIteration_attempts [of e x z] show ?thesis by auto
    next
      case (Continue z)
      have att: "scrollAttempts (fst z) = scrollAttempts (fst x) + 1"
        using scrollIteration_attempts [of e x z] Continue by simp
      have inv: "scrollAttempts (fst z) \<le> k
         \<or> (scrollAttempts (fst z) \<le> k + maxN
            \<and> scrollAttempts (fst z) - k \<le> consecutiveNoChange (fst z))"
      proof (cases "scrollAttempts (fst z) \<le> k")
        case True
        then show ?thesis by simp
      next
        case False
        with att lt "1.prems"(2) have "\<not> grows e (scrollAttempts (fst x) + 1)" by auto
        from scrollIteration_no_growth [OF Continue this] att lt "1.prems"(3) False
        show ?thesis by auto
      qed
      from run "1.prems"(1) Continue have "scrollLoop e maxA maxN z = Some y" by simp
      from "1.IH" [OF run Continue this "1.prems"(2) inv] show ?thesis .
    qed
  qed
qed

lemma controls_not_paused:
  "scrapingState s \<noteq> paused \<Longrightarrow> Pause \<notin> set as \<Longrightarrow> scrapingState (controls as s) \<noteq> paused"
proof (induction as arbitrary: s)
  case Nil
  then show ?case by simp
next
  case (Cons a as)
  from Cons.prems have "scrapingState (control a s) \<noteq> paused"
    by (cases a) (simp_all add: resume_def cancel_def)
  with Cons show ?case by simp
qed

lemma scrollIteration_never_paused:
  assumes "scrapingState (snd x) \<noteq> paused" and "\<forall>i. Pause \<notin> set (arrivals e i)"
  shows "scrollIteration e x \<noteq> Hang"
    and "scrollIteration e x = Continue y \<Longrightarrow> scrapingState (snd y) \<noteq> paused"
  using controls_not_paused [OF assms(1), of "arrivals e (scrollAttempts (fst x) + 1)"] assms(2)
  by (auto simp: scrollIteration_def Let_def isPaused_def split: if_splits option.splits)

lemma scrollLoop_returns:
  assumes "scrapingState (snd x) \<noteq> paused" and "\<forall>i. Pause \<notin> set (arrivals e i)"
  shows "\<exists>y. scrollLoop e maxA maxN x = Some y"
  using assms
proof (induction e maxA maxN x rule: scrollLoop.induct)
  case (1 e maxA maxN x)
  show ?case
  proof (cases "scrollAttempts (fst x) < maxA \<and> consecutiveNoChange (fst x) < maxN")
    case False
    then show ?thesis by auto
  next
    case True
    note run = True
    show ?thesis
    proof (cases "scrollIteration e x")
      case Hang
      with scrollIteration_never_paused(1) [OF "1.prems"] show ?thesis by simp
    next
      case (Return z)
      with run show ?thesis by simp
    next
      case (Break z)
      with run show ?thesis by simp
    next
      case (Continue z)
      from scrollIteration_never_paused(2) [OF "1.prems" Continue]
      have "scrapingState (snd z) \<noteq> paused" .
      from "1.IH" [OF run Continue this "1.prems"(2)] run Continue show ?thesis by simp
    qed
  qed
qed


text \<open>
  A source that produces new elements in its first two iterations and none afterwards,
  with no control call, and a source that grows in every iteration, each iteration
  taking seven seconds.
\<close>

definition stallingSource :: ScrollEnv where
  "stallingSource =
     \<lparr>arrivals = (\<lambda>i. []), resumeTicks = (\<lambda>i. []),
      currentCount = (\<lambda>i. Some (if i = 1 then 0 else if i = 2 then 5 else 9)),
      newCount = (\<lambda>i. Some (if i = 1 then 5 else 9)),
      duration = (\<lambda>i. 3000)\<rparr>"

definition slowGrowingSource :: ScrollEnv where
  "slowGrowingSource =
     \<lparr>arrivals = (\<lambda>i. []), resumeTicks = (\<lambda>i. []),
      currentCount = (\<lambda>i. Some (10 * (i - 1))),
      newCount = (\<lambda>i. Some (10 * i)),
      duration = (\<lambda>i. 7000)\<rparr>"

lemma stallingSource_run:
  "map_option (\<lambda>r. (scrollAttempts (fst r), consecutiveNoChange (fst r), lastBusinessCount (fst r)))
     (scrollAndLoadAllResults stallingSource False newScraper) = Some (6, 4, 9)"
  by (simp add: scrollAndLoadAllResults_def newScraper_def initialScrollVars_def
        maxScrollAttempts_def maxConsecutiveNoChange_def scrollIteration_def stallingSource_def
        isCancelled_def isPaused_def passTime_def scrollTimeoutCallback_def Let_def)

text \<open>
  C3: the body of the scroll loop runs at most \<open>maxScrollAttempts\<close> times (30, or 15 in
  conservative mode); when the iterations \<open>k + 1\<close> to \<open>k + maxConsecutiveNoChange\<close> (6, or
  3 in conservative mode) observe no growth, the loop has ended by iteration
  \<open>k + maxConsecutiveNoChange\<close>, so a source that stops producing after \<open>k\<close> iterations is
  left within that many; and the loop does return when no pause is pending or issued.
\<close>

theorem C3_scroll_loop_bounded:
  "(scrapingState s \<noteq> paused \<and> (\<forall>i. Pause \<notin> set (arrivals e i))
      \<longrightarrow> (\<exists>v s'. scrollAndLoadAllResults e conservativeMode s = Some (v, s')))
   \<and> (\<forall>v s'. scrollAndLoadAllResults e conservativeMode s = Some (v, s') \<longrightarrow>
         scrollAttempts v \<le> maxScrollAttempts conservativeMode
         \<and> ((\<forall>i. k < i \<and> i \<le> k + maxConsecutiveNoChange conservativeMode \<longrightarrow> \<not> grows e i)
              \<longrightarrow> scrollAttempts v \<le> k + maxConsecutiveNoChange conservativeMode))
   \<and> maxScrollAttempts conservativeMode = (if conservativeMode then 15 else 30)
   \<and> maxConsecutiveNoChange conservativeMode = (if conservativeMode then 3 else 6)"
proof -
  let ?A = "maxScrollAttempts conservativeMode"
  let ?N = "maxConsecutiveNoChange conservativeMode"
  have returns: "\<exists>v s'. scrollAndLoadAllResults e conservativeMode s = Some (v, s')"
    if "scrapingState s \<noteq> paused" "\<forall>i. Pause \<notin> set (arrivals e i)"
  proof (cases "page s = None")
    case True
    then show ?thesis by (simp add: scrollAndLoadAllResults_def)
  next
    case False
    from scrollLoop_returns [of "(initialScrollVars, s)" e ?A ?N] that
    obtain y where "scrollLoop e ?A ?N (initialScrollVars, s) = Some y" by auto
    with False show ?thesis
      by (cases y) (simp add: scrollAndLoadAllResults_def)
  qed
  have bound: "scrollAttempts v \<le> ?A"
    if "scrollAndLoadAllResults e conservativeMode s = Some (v, s')" for v s'
  proof (cases "page s = None")
    case True
    with that show ?thesis
      by (auto simp: scrollAndLoadAllResults_def initialScrollVars_def)
  next
    case False
    with that have "scrollLoop e ?A ?N (initialScrollVars, s) = Some (v, s')"
      by (simp add: scrollAndLoadAllResults_def)
    from scrollLoop_attempts_le [OF this] show ?thesis
      by (simp add: initialScrollVars_def)
  qed
  have window: "scrollAttempts v \<le> k + ?N"
    if "scrollAndLoadAllResults e conservativeMode s = Some (v, s')"
      and "\<forall>i. k < i \<and> i \<le> k + ?N \<longrightarrow> \<not> grows e i" for v s'
  proof (cases "page s = None")
    case True
    with that(1) show ?thesis
      by (auto simp: scrollAndLoadAllResults_def initialScrollVars_def)
  next
    case False
    with that(1) have "scrollLoop e ?A ?N (initialScrollVars, s) = Some (v, s')"
      by (simp add: scrollAndLoadAllResults_def)
    from scrollLoop_window [OF this that(2)] show ?thesis
      by (simp add: initialScrollVars_def)
  qed
  from returns bound window show ?thesis
    by (simp add: maxScrollAttempts_def maxConsecutiveNoChange_def)
qed

text \<open>
  The stalling source at \<open>k = 2\<close>: the loop returns, after six iterations, which is
  within \<open>maxScrollAttempts = 30\<close> and within \<open>k + maxConsecutiveNoChange = 8\<close>.
\<close>

theorem C3_stalling_source_witness:
  "(\<exists>v s'. scrollAndLoadAllResults stallingSource False newScraper = Some (v, s')
            \<and> scrollAttempts v = 6 \<and> scrollAttempts v \<le> 30 \<and> scrollAttempts v \<le> 2 + 6)"
proof -
  have a: "scrapingState newScraper \<noteq> paused \<and> (\<forall>i. Pause \<notin> set (arrivals stallingSource i))"
    by (simp add: newScraper_def stallingSource_def)
  have h: "\<forall>i. 2 < i \<and> i \<le> 2 + maxConsecutiveNoChange False \<longrightarrow> \<not> grows stallingSource i"
    by (simp add: grows_def stallingSource_def)
  from C3_scroll_loop_bounded [of newScraper stallingSource False 2] a h
  obtain v s' where r: "scrollAndLoadAllResults stallingSource False newScraper = Some (v, s')"
    and b: "scrollAttempts v \<le> 30" "scrollAttempts v \<le> 2 + 6"
    by auto
  from r stallingSource_run have "scrollAttempts v = 6" by simp
  with r b show ?thesis by simp
qed

text \<open>
  C4: the claim says the scroll phase is stopped once three minutes have passed.  On a
  page that grows in each iteration, with seven seconds per iteration, the timer's
  callback runs during iteration 26 (182 s), and the loop goes on to iteration 30 and
  ends after 210 s, by \<open>maxScrollAttempts\<close> alone.
\<close>

theorem C4_timeout_does_not_stop_scrolling:
  "map_option (\<lambda>r. (scrollAttempts (fst r), elapsed (fst r), timeoutFiredAt (fst r)))
     (scrollAndLoadAllResults slowGrowingSource False newScraper) = Some (30, 210000, Some 26)"
  by (simp add: scrollAndLoadAllResults_def newScraper_def initialScrollVars_def
        maxScrollAttempts_def maxConsecutiveNoChange_def scrollIteration_def slowGrowingSource_def
        isCancelled_def isPaused_def passTime_def scrollTimeoutCallback_def Let_def)


section \<open>Browser and pages\<close>

text \<open>
  \<open>initialize()\<close> closes an existing browser (and with it every page), launches a new
  one and opens the control page.  When a step fails (the argument carries the message)
  it calls \<open>close()\<close> and throws \<open>Browser initialization failed: ...\<close>.
\<close>

definition close :: "GoogleMapsScraper \<Rightarrow> GoogleMapsScraper" where
  "close s = s\<lparr>page := None, browser := False, openPages := []\<rparr>"

definition initialize :: "string option \<Rightarrow> GoogleMapsScraper \<Rightarrow> (string + unit) \<times> GoogleMapsScraper" where
  "initialize failure s =
     (case failure of
        None \<Rightarrow>
          (Inr (), s\<lparr>browser := True, page := Some (nextPageId s),
                     openPages := [nextPageId s], nextPageId := nextPageId s + 1\<rparr>)
      | Some msg \<Rightarrow> (Inl (''Browser initialization failed: '' @ msg), close s))"

text \<open>\<open>browser.newPage()\<close> followed by the four configuration calls.\<close>

definition newPage :: "GoogleMapsScraper \<Rightarrow> nat \<times> GoogleMapsScraper" where
  "newPage s =
     (nextPageId s,
      s\<lparr>openPages := openPages s @ [nextPageId s], nextPageId := nextPageId s + 1\<rparr>)"

definition closePage :: "nat \<Rightarrow> GoogleMapsScraper \<Rightarrow> GoogleMapsScraper" where
  "closePage p s = s\<lparr>openPages := removeAll p (openPages s)\<rparr>"


section \<open>Per-target extraction\<close>

subsection \<open>The field cascades evaluated in the page\<close>

text \<open>
  The detail page as the cascades see it: for a selector, the \<open>textContent\<close> and the
  \<open>href\<close> of the first matching element (\<open>None\<close> when \<open>querySelector\<close> finds none), and the
  page's \<open>parseFloat\<close> (floating-point values are taken as rationals).
\<close>

record DetailDom =
  textContent :: "string \<Rightarrow> string option"
  href :: "string \<Rightarrow> string option"
  parseFloat :: "string \<Rightarrow> jsnum"

definition isSpace :: "char \<Rightarrow> bool" where
  "isSpace c = (c \<in> {CHR '' '', CHR 0x09, CHR 0x0A, CHR 0x0B, CHR 0x0C, CHR 0x0D})"

definition trim :: "string \<Rightarrow> string" where
  "trim t = rev (dropWhile isSpace (rev (dropWhile isSpace t)))"

definition isDigit :: "char \<Rightarrow> bool" where
  "isDigit c = (c \<in> set ''0123456789'')"

definition digitValue :: "char \<Rightarrow> nat" where
  "digitValue c = of_char c - 48"

text \<open>First selector whose element has non-blank text: \<open>getName\<close>, \<open>getAddress\<close>,
  \<open>getCategory\<close> and \<open>getHours\<close>.\<close>

fun firstText :: "DetailDom \<Rightarrow> string list \<Rightarrow> string" where
  "firstText d [] = []"
| "firstText d (selector # selectors) =
     (case textContent d selector of
        None \<Rightarrow> firstText d selectors
      | Some t \<Rightarrow> if trim t \<noteq> [] then trim t else firstText d selectors)"

text \<open>The test \<open>/[\d\+\-\(\)\s]{7,}/\<close>: seven or more consecutive characters of the class.\<close>

definition isPhoneChar :: "char \<Rightarrow> bool" where
  "isPhoneChar c = (isDigit c \<or> isSpace c \<or> c \<in> {CHR ''+'', CHR ''-'', CHR ''('', CHR '')''})"

fun phoneRun :: "nat \<Rightarrow> string \<Rightarrow> bool" where
  "phoneRun n [] = (7 \<le> n)"
| "phoneRun n (c # cs) = (7 \<le> n \<or> (if isPhoneChar c then phoneRun (n + 1) cs else phoneRun 0 cs))"

fun getPhone :: "DetailDom \<Rightarrow> string list \<Rightarrow> string" where
  "getPhone d [] = []"
| "getPhone d (selector # selectors) =
     (case textContent d selector of
        None \<Rightarrow> getPhone d selectors
      | Some t \<Rightarrow>
          if trim t \<noteq> [] \<and> phoneRun 0 (trim t) then trim t else getPhone d selectors)"

fun getWebsite :: "DetailDom \<Rightarrow> string list \<Rightarrow> string" where
  "getWebsite d [] = []"
| "getWebsite d (selector # selectors) =
     (case href d selector of
        None \<Rightarrow> getWebsite d selectors
      | Some h \<Rightarrow>
          if h \<noteq> [] \<and> \<not> str_includes h ''google.com'' then h else getWebsite d selectors)"

fun getRating :: "DetailDom \<Rightarrow> string list \<Rightarrow> rat" where
  "getRating d [] = 0"
| "getRating d (selector # selectors) =
     (case textContent d selector of
        None \<Rightarrow> getRating d selectors
      | Some t \<Rightarrow>
          if t = [] then getRating d selectors
          else (case parseFloat d (trim t) of
                  Num r \<Rightarrow> if 0 \<le> r \<and> r \<le> 5 then r else getRating d selectors
                | _ \<Rightarrow> getRating d selectors))"

text \<open>
  \<open>reviewText.match(/(\d+(?:,\d+)*)/)\<close> and \<open>parseInt(match[1].replace(/,/g, ''))\<close>: the
  match starts at the first digit; \<open>groupValue\<close> reads the decimal value of the matched
  digits, passing over a comma that a digit follows.
\<close>

fun groupValue :: "nat \<Rightarrow> string \<Rightarrow> nat" where
  "groupValue acc [] = acc"
| "groupValue acc [c] = (if isDigit c then acc * 10 + digitValue c else acc)"
| "groupValue acc (c # c' # cs) =
     (if isDigit c then groupValue (acc * 10 + digitValue c) (c' # cs)
      else if c = CHR '','' \<and> isDigit c' then groupValue acc (c' # cs)
      else acc)"

definition matchCount :: "string \<Rightarrow> nat option" where
  "matchCount reviewText =
     (case dropWhile (\<lambda>c. \<not> isDigit c) reviewText of
        [] \<Rightarrow> None
      | m \<Rightarrow> Some (groupValue 0 m))"

fun getReviewCount :: "DetailDom \<Rightarrow> string list \<Rightarrow> nat" where
  "getReviewCount d [] = 0"
| "getReviewCount d (selector # selectors) =
     (case textContent d selector of
        None \<Rightarrow> getReviewCount d selectors
      | Some t \<Rightarrow>
          if t = [] then getReviewCount d selectors
          else (case matchCount (trim t) of
                  None \<Rightarrow> getReviewCount d selectors
                | Some n \<Rightarrow> n))"

text \<open>The object that \<open>page.evaluate\<close> returns.\<close>

record PageData =
  pName :: string
  pAddress :: string
  pPhone :: string
  pWebsite :: string
  pRating :: rat
  pReviewCount :: nat
  pCategory :: string
  pHours :: string

definition evaluateDetails :: "DetailDom \<Rightarrow> PageData" where
  "evaluateDetails d =
     \<lparr>pName = firstText d
        [''h1[data-attrid=\"title\"]'', ''[data-attrid=\"title\"] span'', ''h1.DUwDvf'',
         ''h1.x3AX1-LfntMc-header-title-title'', ''h1'', ''.DUwDvf'', ''.SPZz6b h1''],
      pAddress = firstText d
        [''[data-item-id=\"address\"] .Io6YTe'', ''[data-attrid=\"kc:/location/location:address\"]'',
         ''.LrzXr'', ''[data-value=\"Address\"]'', ''.rogA2c .Io6YTe'', ''.lI9IFe''],
      pPhone = getPhone d
        [''[data-item-id*=\"phone\"] .Io6YTe'', ''[data-attrid*=\"phone\"]'', ''span[dir=\"ltr\"]'',
         ''[data-value=\"Phone\"]'', ''.rogA2c [data-item-id*=\"phone\"]'', ''a[href^=\"tel:\"]''],
      pWebsite = getWebsite d
        [''a[data-item-id*=\"authority\"]'', ''a[data-attrid*=\"website\"]'',
         ''a[href^=\"http\"]:not([href*=\"google.com\"])'', ''[data-value=\"Website\"] a''],
      pRating = getRating d
        [''[data-attrid=\"review-score\"] span'', ''.lTi8oc'', ''[aria-label*=\"stars\"]'',
         ''.fontDisplayLarge''],
      pReviewCount = getReviewCount d
        [''[data-attrid=\"review-score\"] + span'', ''.lTi8oc + span'', ''[aria-label*=\"reviews\"]''],
      pCategory = firstText d
        [''[data-attrid=\"kc:/local:place_type\"]'', ''.rogA2c .Io6YTe'', ''[data-value=\"Category\"]'',
         ''.lI9IFe''],
      pHours = firstText d
        [''[data-item-id*=\"hours\"]'', ''[data-attrid*=\"hours\"]'', ''[data-value=\"Hours\"]'',
         ''.rogA2c [data-item-id*=\"hours\"]'']\<rparr>"

text \<open>\<open>x || undefined\<close> on a string.\<close>

definition orUndefined :: "string \<Rightarrow> string option" where
  "orUndefined x = (if x = [] then None else Some x)"

text \<open>
  The \<open>BusinessData\<close> object literal of both extractors, from the page's data, the
  coordinates found in the url, \<open>Date.now()\<close> and the index of the target.
\<close>

definition makeBusiness :: "PageData \<Rightarrow> (rat \<times> rat) option \<Rightarrow> nat \<Rightarrow> nat \<Rightarrow> BusinessData" where
  "makeBusiness businessData coords now currentIndex =
     \<lparr>ident = (now, currentIndex),
      name = (if pName businessData = [] then ''Unknown Business'' else pName businessData),
      address = (if pAddress businessData = [] then ''Address not available''
                 else pAddress businessData),
      phone = orUndefined (pPhone businessData),
      website = orUndefined (pWebsite businessData),
      rating = (if 0 < pRating businessData then Some (pRating businessData) else None),
      reviewCount = (if 0 < pReviewCount businessData then Some (pReviewCount businessData)
                     else None),
      category = orUndefined (pCategory businessData),
      hours = orUndefined (pHours businessData),
      coordinates = coords,
      scrapedAt = now\<rparr>"



subsection \<open>One attempt\<close>

text \<open>
  What one pass through the \<open>try\<close> block meets, in the order the code asks:
  whether the browser is still connected, the failure of a re-initialisation (if any),
  whether the page answers \<open>document.readyState\<close>, whether the browser is there to open
  a replacement page and the failure of opening it, the failure of \<open>page.goto\<close>, the
  title (empty when \<open>title()\<close> rejects) and url after navigation, whether
  \<open>waitForSelector\<close> finds the content, the failure of \<open>page.evaluate\<close>, the page itself,
  the coordinates \<open>extractCoordinatesFromUrl\<close> finds in the url, the clock, and the
  failure of the re-initialisation tried by the \<open>catch\<close> block.
\<close>

record AttemptEnv =
  browserConnected :: bool
  initializeError :: "string option"
  pageResponds :: bool
  connectedForNewPage :: bool
  newPageError :: "string option"
  gotoError :: "string option"
  pageTitle :: string
  pageUrl :: string
  contentFound :: bool
  evaluateError :: "string option"
  dom :: DetailDom
  urlCoordinates :: "(rat \<times> rat) option"
  dateNow :: nat
  recoveryError :: "string option"

text \<open>The test for an error page or a blocking interstitial.\<close>

definition blockedSignal :: "string \<Rightarrow> string \<Rightarrow> bool" where
  "blockedSignal title url =
     (title = [] \<or> str_includes title ''Error'' \<or> str_includes title ''404''
      \<or> str_includes url ''sorry'' \<or> str_includes url ''blocked'')"

datatype TryOutcome = ReturnNull | ReturnBusiness BusinessData | Retry

text \<open>
  The part of the \<open>try\<close> block after the page is known to be usable, the same in both
  extractors: navigation, the blocked-page test, the wait for content, the evaluation.
  The result is a thrown message (\<open>Inl\<close>) or the way the block is left.
\<close>

definition navigateAndExtract :: "AttemptEnv \<Rightarrow> nat \<Rightarrow> string + TryOutcome" where
  "navigateAndExtract a currentIndex =
     (case gotoError a of
        Some msg \<Rightarrow> Inl msg
      | None \<Rightarrow>
          if blockedSignal (pageTitle a) (pageUrl a) then Inr Retry
          else if \<not> contentFound a then Inr Retry
          else (case evaluateError a of
                  Some msg \<Rightarrow> Inl msg
                | None \<Rightarrow>
                    Inr (ReturnBusiness
                          (makeBusiness (evaluateDetails (dom a)) (urlCoordinates a)
                             (dateNow a) currentIndex))))"

text \<open>
  The \<open>try\<close> block of \<open>scrapeBusinessDetails\<close>.  The second component counts the calls of
  \<open>page.goto\<close>.
\<close>

definition tryDetails ::
  "AttemptEnv \<Rightarrow> nat \<Rightarrow> GoogleMapsScraper \<Rightarrow> (string + TryOutcome) \<times> nat \<times> GoogleMapsScraper" where
  "tryDetails a currentIndex s =
     (if \<not> browser s then (Inl ''Cannot read properties of null (reading connected)'', 0, s)
      else
        (case (if browserConnected a then (Inr True, s)
               else (case initialize (initializeError a) s of
                       (Inl msg, s) \<Rightarrow> (Inl msg, s)
                     | (Inr _, s) \<Rightarrow> (Inr (page s \<noteq> None), s))) of
           (Inl msg, s) \<Rightarrow> (Inl msg, 0, s)
         | (Inr False, s) \<Rightarrow> (Inr ReturnNull, 0, s)
         | (Inr True, s) \<Rightarrow>
             if page s \<noteq> None \<and> pageResponds a then (navigateAndExtract a currentIndex, 1, s)
             else if browser s \<and> connectedForNewPage a then
               (case newPageError a of
                  Some msg \<Rightarrow> (Inl msg, 0, s)
                | None \<Rightarrow>
                    (navigateAndExtract a currentIndex, 1,
                     (snd (newPage s))\<lparr>page := Some (fst (newPage s))\<rparr>))
             else (Inr ReturnNull, 0, s)))"

definition isDisconnection :: "string \<Rightarrow> bool" where
  "isDisconnection msg =
     (str_includes msg ''frame was detached'' \<or> str_includes msg ''Target closed''
      \<or> str_includes msg ''Session closed'')"

text \<open>The \<open>catch\<close> block of \<open>scrapeBusinessDetails\<close>, up to the decrement of \<open>retries\<close>.\<close>

definition catchDetails ::
  "AttemptEnv \<Rightarrow> string \<Rightarrow> GoogleMapsScraper \<Rightarrow> TryOutcome \<times> GoogleMapsScraper" where
  "catchDetails a msg s =
     (if isDisconnection msg then
        (case initialize (recoveryError a) s of
           (Inl _, s) \<Rightarrow> (ReturnNull, s)
         | (Inr _, s) \<Rightarrow> (case page s of None \<Rightarrow> (ReturnNull, s) | Some _ \<Rightarrow> (Retry, s)))
      else (Retry, s))"

text \<open>
  The \<open>while (retries > 0)\<close> loop.  The first argument is \<open>retries\<close>, the second the number
  of the attempt.  Every way out of an attempt that does not return decrements
  \<open>retries\<close> and returns \<open>null\<close> when it has reached zero.  The result is a thrown message
  or the returned value, with the number of navigations.
\<close>

fun detailsLoop ::
  "nat \<Rightarrow> nat \<Rightarrow> (nat \<Rightarrow> AttemptEnv) \<Rightarrow> nat \<Rightarrow> GoogleMapsScraper
     \<Rightarrow> (string + BusinessData option) \<times> nat \<times> GoogleMapsScraper" where
  "detailsLoop 0 k env currentIndex s = (Inr None, 0, s)"
| "detailsLoop (Suc retries) k env currentIndex s =
     (case tryDetails (env k) currentIndex s of
        (r, n, s) \<Rightarrow>
          (case (case r of Inl msg \<Rightarrow> catchDetails (env k) msg s | Inr out \<Rightarrow> (out, s)) of
             (ReturnNull, s) \<Rightarrow> (Inr None, n, s)
           | (ReturnBusiness business, s) \<Rightarrow> (Inr (Some business), n, s)
           | (Retry, s) \<Rightarrow>
               if retries = 0 then (Inr None, n, s)
               else (case detailsLoop retries (k + 1) env currentIndex s of
                       (r', n', s) \<Rightarrow> (r', n + n', s))))"

definition scrapeBusinessDetails ::
  "(nat \<Rightarrow> AttemptEnv) \<Rightarrow> nat \<Rightarrow> GoogleMapsScraper
     \<Rightarrow> (string + BusinessData option) \<times> nat \<times> GoogleMapsScraper" where
  "scrapeBusinessDetails env currentIndex s =
     (if page s = None \<or> \<not> browser s then (Inr None, 0, s)
      else detailsLoop 3 0 env currentIndex s)"

text \<open>
  The parallel extractor works on the page it is given; it replaces an unresponsive
  page by a new one, and its \<open>catch\<close> block only counts the retry.
\<close>

definition tryDetailsParallel ::
  "AttemptEnv \<Rightarrow> nat \<Rightarrow> nat \<times> GoogleMapsScraper
     \<Rightarrow> (string + TryOutcome) \<times> nat \<times> nat \<times> GoogleMapsScraper" where
  "tryDetailsParallel a currentIndex ps =
     (if pageResponds a then (navigateAndExtract a currentIndex, 1, ps)
      else if browser (snd ps) \<and> connectedForNewPage a then
        (case newPageError a of
           Some msg \<Rightarrow> (Inl msg, 0, ps)
         | None \<Rightarrow> (navigateAndExtract a currentIndex, 1, newPage (snd ps)))
      else (Inr ReturnNull, 0, ps))"

fun parallelLoop ::
  "nat \<Rightarrow> nat \<Rightarrow> (nat \<Rightarrow> AttemptEnv) \<Rightarrow> nat \<Rightarrow> nat \<times> GoogleMapsScraper
     \<Rightarrow> (string + BusinessData option) \<times> nat \<times> GoogleMapsScraper" where
  "parallelLoop 0 k env currentIndex ps = (Inr None, 0, snd ps)"
| "parallelLoop (Suc retries) k env currentIndex ps =
     (case tryDetailsParallel (env k) currentIndex ps of
        (r, n, ps) \<Rightarrow>
          (case (case r of Inl msg \<Rightarrow> Retry | Inr out \<Rightarrow> out) of
             ReturnNull \<Rightarrow> (Inr None, n, snd ps)
           | ReturnBusiness business \<Rightarrow> (Inr (Some business), n, snd ps)
           | Retry \<Rightarrow>
               if retries = 0 then (Inr None, n, snd ps)
               else (case parallelLoop retries (k + 1) env currentIndex ps of
                       (r', n', s) \<Rightarrow> (r', n + n', s))))"

definition scrapeBusinessDetailsParallel ::
  "(nat \<Rightarrow> AttemptEnv) \<Rightarrow> nat \<Rightarrow> nat option \<Rightarrow> GoogleMapsScraper
     \<Rightarrow> (string + BusinessData option) \<times> nat \<times> GoogleMapsScraper" where
  "scrapeBusinessDetailsParallel env currentIndex pg s =
     (case pg of
        None \<Rightarrow> (Inr None, 0, s)
      | Some p \<Rightarrow> parallelLoop 2 0 env currentIndex (p, s))"


subsection \<open>Properties of the extractors\<close>


















text \<open>A target whose page always redirects to the \<open>sorry\<close> interstitial.\<close>

definition emptyDom :: DetailDom where
  "emptyDom = \<lparr>textContent = (\<lambda>selector. None), href = (\<lambda>selector. None), parseFloat = (\<lambda>t. NaN)\<rparr>"





section \<open>The extraction scheduler: \<open>scrapeBusinesses\<close>\<close>

subsection \<open>Environment of a run\<close>

text \<open>How the opening of one auxiliary page goes: the browser is not connected (no page
  is pushed), \<open>newPage()\<close> throws, the page is created and its configuration throws, or
  the page is pushed.\<close>

datatype PageOpen = Opened | NotConnected | NewPageThrows | ConfigureThrows

text \<open>
  Everything outside the scraper that a run of \<open>scrapeBusinesses\<close> depends on.  Control
  calls (\<open>pause\<close>, \<open>resume\<close>, \<open>cancel\<close>) are issued from outside while the run awaits; each
  \<open>...Arrivals\<close> field lists the calls that arrive before the next point where the code
  reads the state.  Batches are named by their \<open>batchStart\<close>, targets by their global
  index.  \<open>envMaxResults\<close> is \<open>parseInt(MAX_BUSINESSES_PER_SEARCH || '500')\<close> with \<open>None\<close>
  for \<open>NaN\<close>; \<open>maxConcurrentScrapers\<close> is \<open>parseInt(MAX_CONCURRENT_SCRAPERS || '3')\<close>, taken
  to be a natural number.  \<open>maxResults\<close> of the request is an integer (a fractional
  value is cut by \<open>slice\<close>).
\<close>

record RunEnv =
  searchGotoError :: "string option"
  navigationArrivals :: "ControlAction list"
  selectorArrivals :: "string \<Rightarrow> ControlAction list"
  selectorFound :: "string \<Rightarrow> bool"
  scroll :: ScrollEnv
  conservativeMode :: bool
  scrollEndArrivals :: "ControlAction list"
  harvest :: HarvestEnv
  pageValidAfterScroll :: bool
  envMaxResults :: "int option"
  maxConcurrentScrapers :: nat
  batchArrivals :: "nat \<Rightarrow> ControlAction list"
  batchResumeTicks :: "nat \<Rightarrow> ControlAction list list"
  healthCheckPasses :: "nat \<Rightarrow> bool"
  healthRecoveryError :: "nat \<Rightarrow> string option"
  pageOpening :: "nat \<Rightarrow> nat \<Rightarrow> PageOpen"
  attempts :: "nat \<Rightarrow> nat \<Rightarrow> AttemptEnv"
  itemArrivals :: "nat \<Rightarrow> ControlAction list"
  parallelArrivals :: "nat \<Rightarrow> ControlAction list"

datatype 'a Outcome = Hangs | Throws string | Returns 'a

subsection \<open>Numbers in messages and the slice of targets\<close>

text \<open>The decimal digits of a number, as a template literal prints it.\<close>

function showNat :: "nat \<Rightarrow> string" where
  "showNat n =
     (if n < 10 then [char_of (48 + n)] else showNat (n div 10) @ [char_of (48 + n mod 10)])"
  by pat_completeness auto
termination
  by (relation "measure id") auto

declare showNat.simps [simp del]

text \<open>
  \<open>xs.slice(0, end)\<close>: a \<open>NaN\<close> end is 0, a negative end counts from the end of the array,
  and the end is cut at the length.
\<close>

fun slice0 :: "'a list \<Rightarrow> int option \<Rightarrow> 'a list" where
  "slice0 xs None = []"
| "slice0 xs (Some e) = (if e < 0 then take (nat (int (length xs) + e)) xs else take (nat e) xs)"

text \<open>\<open>Math.min\<close> of a number and a possibly-\<open>NaN\<close> number.\<close>

fun Math_min :: "int \<Rightarrow> int option \<Rightarrow> int option" where
  "Math_min a None = None"
| "Math_min a (Some b) = Some (min a b)"

definition actualMaxResults :: "RunEnv \<Rightarrow> SearchParams \<Rightarrow> int option" where
  "actualMaxResults e params =
     (let userMaxResults = (if maxResults params = 0 then 500 else maxResults params)
      in Math_min userMaxResults (envMaxResults e))"

definition linksToProcess :: "RunEnv \<Rightarrow> SearchParams \<Rightarrow> string list \<Rightarrow> string list" where
  "linksToProcess e params links = slice0 links (actualMaxResults e params)"

subsection \<open>Health check and auxiliary pages\<close>

text \<open>
  \<open>ensureBrowserHealth\<close>: when \<open>performHealthCheck\<close> fails (the interval has elapsed and
  the browser or page is missing, disconnected or unresponsive) the browser is
  re-initialised; the result tells whether the batch may go on.
\<close>

definition ensureBrowserHealth :: "RunEnv \<Rightarrow> nat \<Rightarrow> GoogleMapsScraper \<Rightarrow> bool \<times> GoogleMapsScraper" where
  "ensureBrowserHealth e batchStart s =
     (if healthCheckPasses e batchStart then (True, s)
      else (case initialize (healthRecoveryError e batchStart) s of
              (Inl msg, s) \<Rightarrow> (False, s)
            | (Inr _, s) \<Rightarrow> (True, s)))"

text \<open>
  The loop that opens one page per batch member (lines 443 to 459).  The first argument
  counts the members still to come, the second is the loop index.  A throw empties
  \<open>pages\<close> (\<open>pages.length = 0\<close>) and ends the loop; the pages opened so far stay open.
\<close>

fun openBatchPages ::
  "(nat \<Rightarrow> PageOpen) \<Rightarrow> nat \<Rightarrow> nat \<Rightarrow> nat list \<Rightarrow> GoogleMapsScraper
     \<Rightarrow> nat list \<times> GoogleMapsScraper" where
  "openBatchPages opening 0 i pages s = (pages, s)"
| "openBatchPages opening (Suc n) i pages s =
     (if \<not> browser s then openBatchPages opening n (i + 1) pages s
      else (case opening i of
              NotConnected \<Rightarrow> openBatchPages opening n (i + 1) pages s
            | NewPageThrows \<Rightarrow> ([], s)
            | ConfigureThrows \<Rightarrow> ([], snd (newPage s))
            | Opened \<Rightarrow>
                openBatchPages opening n (i + 1) (pages @ [fst (newPage s)]) (snd (newPage s))))"

subsection \<open>Parallel and sequential batches\<close>

text \<open>\<open>pages[index % pages.length]\<close>, the page of the batch member \<open>index\<close>.\<close>

definition assignedPage :: "nat list \<Rightarrow> nat \<Rightarrow> nat" where
  "assignedPage pages index = pages ! (index mod length pages)"

text \<open>
  The members of a parallel batch, in index order: each calls
  \<open>scrapeBusinessDetailsParallel\<close> on its assigned page inside \<open>try\<close>/\<open>catch\<close> and yields a
  record or \<open>null\<close>.  The extractions share only the browser, where they may open
  replacement pages; the model runs them one after the other.
\<close>

fun parallelMembers ::
  "RunEnv \<Rightarrow> nat list \<Rightarrow> nat \<Rightarrow> nat \<Rightarrow> string list \<Rightarrow> GoogleMapsScraper
     \<Rightarrow> BusinessData option list \<times> GoogleMapsScraper" where
  "parallelMembers e pages batchStart index [] s = ([], s)"
| "parallelMembers e pages batchStart index (businessLink # rest) s =
     (let globalIndex = batchStart + index;
          r = scrapeBusinessDetailsParallel (attempts e globalIndex) (globalIndex + 1)
                (Some (assignedPage pages index)) s;
          result = (case fst r of Inr (Some business) \<Rightarrow> Some business | _ \<Rightarrow> None);
          rs = parallelMembers e pages batchStart (index + 1) rest (snd (snd r))
      in (result # fst rs, snd rs))"

definition closePages :: "nat list \<Rightarrow> GoogleMapsScraper \<Rightarrow> GoogleMapsScraper" where
  "closePages pages s = fold closePage pages s"

definition parallelBatch ::
  "RunEnv \<Rightarrow> nat list \<Rightarrow> nat \<Rightarrow> string list \<Rightarrow> GoogleMapsScraper \<Rightarrow> GoogleMapsScraper" where
  "parallelBatch e pages batchStart currentBatch s =
     (let rs = parallelMembers e pages batchStart 0 currentBatch s;
          s = controls (parallelArrivals e batchStart) (snd rs);
          s = s\<lparr>scrapedBusinesses := scrapedBusinesses s @ List.map_filter id (fst rs)\<rparr>
      in closePages pages s)"

text \<open>\<open>10 + (globalIndex / linksToProcess.length) * 85\<close>.\<close>

definition progressPercent :: "nat \<Rightarrow> nat \<Rightarrow> jsnum" where
  "progressPercent globalIndex n = js_plus 10 (js_scale (js_div (of_nat globalIndex) (of_nat n)) 85)"

text \<open>
  The sequential fallback (lines 494 to 541) over the rest of the batch, from loop
  index \<open>i\<close>.  The delay before an item changes nothing but the time.
\<close>

fun sequentialItems ::
  "RunEnv \<Rightarrow> nat \<Rightarrow> nat \<Rightarrow> nat \<Rightarrow> string list \<Rightarrow> GoogleMapsScraper \<Rightarrow> GoogleMapsScraper" where
  "sequentialItems e n batchStart i [] s = s"
| "sequentialItems e n batchStart i (businessLink # rest) s =
     (let globalIndex = batchStart + i;
          s = s\<lparr>currentBusinessIndex := globalIndex\<rparr>;
          s = (if businessLink \<noteq> [] then
                 (let r = scrapeBusinessDetails (attempts e globalIndex) (globalIndex + 1) s;
                      s = controls (itemArrivals e globalIndex) (snd (snd r))
                  in case fst r of
                       Inr (Some business) \<Rightarrow>
                         s\<lparr>scrapedBusinesses := scrapedBusinesses s @ [business]\<rparr>
                     | _ \<Rightarrow> s)
               else s);
          s = updateProgress
                \<lparr>status = (if isPaused s then st_paused else st_scraping),
                 currentStep =
                   (if isPaused s then ''Scraping paused by user''
                    else ''Scraped '' @ showNat (length (scrapedBusinesses s)) @ ''/''
                         @ showNat n @ '' businesses''),
                 progress = progressPercent globalIndex n,
                 totalFound = int n,
                 scraped = length (scrapedBusinesses s), errors = []\<rparr> s
      in sequentialItems e n batchStart (i + 1) rest s)"

definition processBatch ::
  "RunEnv \<Rightarrow> nat \<Rightarrow> nat \<Rightarrow> string list \<Rightarrow> GoogleMapsScraper \<Rightarrow> GoogleMapsScraper" where
  "processBatch e n batchStart currentBatch s =
     (let opened = openBatchPages (pageOpening e batchStart) (length currentBatch) 0 [] s;
          pages = fst opened;
          s = snd opened
      in if 1 < length pages then parallelBatch e pages batchStart currentBatch s
         else sequentialItems e n batchStart 0 currentBatch s)"

subsection \<open>The batch loop\<close>

text \<open>One pass through the body of the \<open>for\<close> loop over batches.\<close>

definition batchStep ::
  "RunEnv \<Rightarrow> string list \<Rightarrow> nat \<Rightarrow> nat \<Rightarrow> GoogleMapsScraper \<Rightarrow> GoogleMapsScraper Step" where
  "batchStep e links batchSize batchStart s =
     (let batchEnd = min (batchStart + batchSize) (length links);
          currentBatch = take (batchEnd - batchStart) (drop batchStart links);
          s = controls (batchArrivals e batchStart) s
      in if isCancelled s then Break s
         else
           (case (if isPaused s then waitForResume (batchResumeTicks e batchStart) s else Some s) of
              None \<Rightarrow> Hang
            | Some s \<Rightarrow>
                if isCancelled s then Break s
                else (case ensureBrowserHealth e batchStart s of
                        (False, s) \<Rightarrow> Break s
                      | (True, s) \<Rightarrow>
                          Continue (processBatch e (length links) batchStart currentBatch s))))"

text \<open>
  The loop \<open>for (batchStart = 0; batchStart < linksToProcess.length; batchStart += batchSize)\<close>.
  With a batch size of 0 the index never advances; the model lets such a run hang.
\<close>

function batchLoop ::
  "RunEnv \<Rightarrow> string list \<Rightarrow> nat \<Rightarrow> nat \<Rightarrow> GoogleMapsScraper \<Rightarrow> GoogleMapsScraper option" where
  "batchLoop e links batchSize batchStart s =
     (if batchStart < length links then
        (if batchSize = 0 then None
         else (case batchStep e links batchSize batchStart s of
                 Hang \<Rightarrow> None
               | Return s \<Rightarrow> Some s
               | Break s \<Rightarrow> Some s
               | Continue s \<Rightarrow> batchLoop e links batchSize (batchStart + batchSize) s))
      else Some s)"
  by pat_completeness auto
termination
  by (relation "measure (\<lambda>(e, links, batchSize, batchStart, s). length links - batchStart)") auto


subsection \<open>Search, discovery and the whole run\<close>

definition resultSelectors :: "string list" where
  "resultSelectors =
     [''[role=\"main\"]'', ''.m6QErb'', ''[data-value=\"Directions\"]'',
      ''a[href*=\"maps/place\"]'', ''.hfpxzc'']"

text \<open>
  The loop over \<open>resultSelectors\<close>: \<open>None\<close> when the run is found cancelled, otherwise
  the value of \<open>resultsFound\<close>.
\<close>

fun waitForResults ::
  "RunEnv \<Rightarrow> string list \<Rightarrow> GoogleMapsScraper \<Rightarrow> bool option \<times> GoogleMapsScraper" where
  "waitForResults e [] s = (Some False, s)"
| "waitForResults e (selector # selectors) s =
     (let s = controls (selectorArrivals e selector) s
      in if isCancelled s then (None, s)
         else if selectorFound e selector then (Some True, s)
         else waitForResults e selectors s)"

text \<open>
  Lines 215 to 343: the run up to the harvested links.  \<open>Inl\<close> is a way the run ends
  there (a throw, an early return of the result set, a wait that never ends), \<open>Inr\<close> the
  final list of links.
\<close>

definition discover ::
  "RunEnv \<Rightarrow> GoogleMapsScraper \<Rightarrow> (BusinessData list Outcome + string list) \<times> GoogleMapsScraper" where
  "discover e s0 =
     (case page s0 of
        None \<Rightarrow> (Inl (Throws ''Scraper not initialized''), s0)
      | Some _ \<Rightarrow>
          (let s = s0\<lparr>scrapingState := running, scrapedBusinesses := [],
                      currentBusinessIndex := 0\<rparr>;
               s = updateProgress
                     \<lparr>status = st_searching, currentStep = ''Searching for businesses...'',
                      progress = Num 0, totalFound = 0, scraped = 0, errors = []\<rparr> s
           in case searchGotoError e of
                Some msg \<Rightarrow> (Inl (Throws msg), s)
              | None \<Rightarrow>
                  (let s = controls (navigationArrivals e) s
                   in if isCancelled s then (Inl (Returns (scrapedBusinesses s)), s)
                      else
                        (case waitForResults e resultSelectors s of
                           (None, s) \<Rightarrow> (Inl (Returns (scrapedBusinesses s)), s)
                         | (Some False, s) \<Rightarrow>
                             (Inl (Throws
                                ''No search results found - page may have changed structure''), s)
                         | (Some True, s) \<Rightarrow>
                             (case scrollAndLoadAllResults (scroll e) (conservativeMode e) s of
                                None \<Rightarrow> (Inl Hangs, s)
                              | Some (v, s) \<Rightarrow>
                                  (let s = controls (scrollEndArrivals e) s
                                   in if isCancelled s
                                      then (Inl (Returns (scrapedBusinesses s)), s)
                                      else (Inr (harvestLinks (harvest e)), s)))))))"

text \<open>
  Lines 367 to 377: the links are stored and the first \<open>scraping\<close> snapshot is emitted.
\<close>

definition startExtraction :: "SearchParams \<Rightarrow> string list \<Rightarrow> GoogleMapsScraper \<Rightarrow> GoogleMapsScraper" where
  "startExtraction params links s =
     updateProgress
       \<lparr>status = st_scraping, currentStep = ''Extracting business information...'',
        progress = Num 10, totalFound = int (length links), scraped = 0, errors = []\<rparr>
       (s\<lparr>businessLinks := links,
          totalBusinessesToScrape := min (int (length links)) (maxResults params)\<rparr>)"

text \<open>Lines 551 to 571: the final state, for \<open>n\<close> links to process.\<close>

definition setFinalState :: "nat \<Rightarrow> GoogleMapsScraper \<Rightarrow> GoogleMapsScraper" where
  "setFinalState n s =
     (if isCancelled s then
        updateProgress
          \<lparr>status = st_cancelled, currentStep = ''Scraping cancelled by user'',
           progress = indexPercent (currentBusinessIndex s) (int n),
           totalFound = int n, scraped = length (scrapedBusinesses s), errors = []\<rparr> s
      else
        updateProgress
          \<lparr>status = st_completed, currentStep = ''Scraping completed!'',
           progress = Num 100, totalFound = int n,
           scraped = length (scrapedBusinesses s), errors = []\<rparr>
          (s\<lparr>scrapingState := completed\<rparr>))"

text \<open>Lines 345 to 573: from the final list of links to the returned result set.\<close>

definition extractAll ::
  "RunEnv \<Rightarrow> SearchParams \<Rightarrow> string list \<Rightarrow> GoogleMapsScraper
     \<Rightarrow> BusinessData list Outcome \<times> GoogleMapsScraper" where
  "extractAll e params links s =
     (if length links = 0 then
        (Returns [],
         updateProgress
           \<lparr>status = st_completed, currentStep = ''No businesses found'', progress = Num 100,
            totalFound = 0, scraped = 0,
            errors = [''No business links found in search results'']\<rparr> s)
      else
        (let s = startExtraction params links s
         in if \<not> pageValidAfterScroll e then
              (Returns [],
               updateProgress
                 \<lparr>status = st_error, currentStep = ''Page context invalid'', progress = Num 0,
                  totalFound = int (length links), scraped = 0,
                  errors = [''Page context became invalid after scrolling. This may be due to page refresh or navigation.'']\<rparr> s)
            else
              (let toProcess = linksToProcess e params links;
                   batchSize = min (maxConcurrentScrapers e) 5
               in case batchLoop e toProcess batchSize 0 s of
                    None \<Rightarrow> (Hangs, s)
                  | Some s \<Rightarrow>
                      (let s = setFinalState (length toProcess) s
                       in (Returns (scrapedBusinesses s), s)))))"

definition scrapeBusinesses ::
  "RunEnv \<Rightarrow> SearchParams \<Rightarrow> GoogleMapsScraper \<Rightarrow> BusinessData list Outcome \<times> GoogleMapsScraper" where
  "scrapeBusinesses e params s =
     (case discover e s of
        (Inl out, s) \<Rightarrow> (out, s)
      | (Inr links, s) \<Rightarrow> extractAll e params links s)"


subsection \<open>The result set only grows by extracted records\<close>

lemma scrapedBusinesses_updateProgress [simp]:
  "scrapedBusinesses (updateProgress p s) = scrapedBusinesses s"
  by (simp add: updateProgress_def)

lemma scrapedBusinesses_control [simp]: "scrapedBusinesses (control a s) = scrapedBusinesses s"
  by (cases a) (simp_all add: pause_def resume_def cancel_def)

lemma scrapedBusinesses_controls [simp]: "scrapedBusinesses (controls as s) = scrapedBusinesses s"
  by (induction as arbitrary: s) simp_all


lemma scrapedBusinesses_initialize [simp]:
  "scrapedBusinesses (snd (initialize f s)) = scrapedBusinesses s"
  by (simp add: initialize_def close_def split: option.splits)

lemma scrapedBusinesses_newPage [simp]: "scrapedBusinesses (snd (newPage s)) = scrapedBusinesses s"
  by (simp add: newPage_def)

lemma scrapedBusinesses_closePage [simp]: "scrapedBusinesses (closePage p s) = scrapedBusinesses s"
  by (simp add: closePage_def)

lemma scrapedBusinesses_closePages [simp]: "scrapedBusinesses (closePages ps s) = scrapedBusinesses s"
  unfolding closePages_def by (induction ps arbitrary: s) simp_all

lemma initialize_results:
  "initialize f s = (r, s') \<Longrightarrow> scrapedBusinesses s' = scrapedBusinesses s"
  by (auto simp: initialize_def close_def split: option.splits)

lemma scrapedBusinesses_tryDetails [simp]:
  "scrapedBusinesses (snd (snd (tryDetails a i s))) = scrapedBusinesses s"
  by (cases "initialize (initializeError a) s")
     (auto simp: tryDetails_def newPage_def split: sum.splits bool.splits option.splits
        dest: initialize_results)

lemma scrapedBusinesses_catchDetails [simp]:
  "scrapedBusinesses (snd (catchDetails a msg s)) = scrapedBusinesses s"
  by (cases "initialize (recoveryError a) s")
     (auto simp: catchDetails_def split: sum.splits option.splits dest: initialize_results)

lemma scrapedBusinesses_detailsLoop [simp]:
  "scrapedBusinesses (snd (snd (detailsLoop r k env i s))) = scrapedBusinesses s"
proof (induction r arbitrary: k s)
  case 0
  show ?case by simp
next
  case (Suc r)
  obtain t n s1 where t: "tryDetails (env k) i s = (t, n, s1)"
    by (cases "tryDetails (env k) i s") auto
  then have s1: "scrapedBusinesses s1 = scrapedBusinesses s"
    using scrapedBusinesses_tryDetails [of "env k" i s] by simp
  obtain out s2 where o: "(case t of Inl msg \<Rightarrow> catchDetails (env k) msg s1 | Inr out \<Rightarrow> (out, s1)) = (out, s2)"
    by (cases "case t of Inl msg \<Rightarrow> catchDetails (env k) msg s1 | Inr out \<Rightarrow> (out, s1)") auto
  have s2: "scrapedBusinesses s2 = scrapedBusinesses s1"
  proof (cases t)
    case (Inl msg)
    with o scrapedBusinesses_catchDetails [of "env k" msg s1] show ?thesis by simp
  next
    case (Inr x)
    with o show ?thesis by simp
  qed
  from t o s1 s2 Suc.IH [of "k + 1" s2] show ?case
    by (cases out) (auto split: prod.splits)
qed

lemma scrapedBusinesses_scrapeBusinessDetails [simp]:
  "scrapedBusinesses (snd (snd (scrapeBusinessDetails env i s))) = scrapedBusinesses s"
  by (simp add: scrapeBusinessDetails_def)

lemma scrapedBusinesses_tryDetailsParallel [simp]:
  "scrapedBusinesses (snd (snd (snd (tryDetailsParallel a i ps)))) = scrapedBusinesses (snd ps)"
  by (auto simp: tryDetailsParallel_def newPage_def split: option.splits)

lemma scrapedBusinesses_parallelLoop [simp]:
  "scrapedBusinesses (snd (snd (parallelLoop r k env i ps))) = scrapedBusinesses (snd ps)"
proof (induction r arbitrary: k ps)
  case 0
  show ?case by simp
next
  case (Suc r)
  obtain t n ps1 where t: "tryDetailsParallel (env k) i ps = (t, n, ps1)"
    by (cases "tryDetailsParallel (env k) i ps") auto
  then have s1: "scrapedBusinesses (snd ps1) = scrapedBusinesses (snd ps)"
    using scrapedBusinesses_tryDetailsParallel [of "env k" i ps] by simp
  from t s1 Suc.IH [of "k + 1" ps1] show ?case
    by (cases "case t of Inl msg \<Rightarrow> Retry | Inr out \<Rightarrow> out") (auto split: prod.splits)
qed

lemma scrapedBusinesses_scrapeBusinessDetailsParallel [simp]:
  "scrapedBusinesses (snd (snd (scrapeBusinessDetailsParallel env i pg s))) = scrapedBusinesses s"
  by (cases pg) (simp_all add: scrapeBusinessDetailsParallel_def)

lemma scrapedBusinesses_openBatchPages [simp]:
  "scrapedBusinesses (snd (openBatchPages opening n i pages s)) = scrapedBusinesses s"
  by (induction n arbitrary: i pages s) (auto split: PageOpen.splits)


























lemma linksToProcess_NaN:
  "envMaxResults e = None \<Longrightarrow> linksToProcess e params links = []"
  by (simp add: linksToProcess_def actualMaxResults_def Let_def)


subsection \<open>Only control calls change the control state during extraction\<close>

lemma scrapingState_newPage [simp]: "scrapingState (snd (newPage s)) = scrapingState s"
  by (simp add: newPage_def)

lemma scrapingState_closePage [simp]: "scrapingState (closePage p s) = scrapingState s"
  by (simp add: closePage_def)

lemma scrapingState_closePages [simp]: "scrapingState (closePages ps s) = scrapingState s"
  unfolding closePages_def by (induction ps arbitrary: s) simp_all

lemma initialize_state:
  "initialize f s = (r, s') \<Longrightarrow> scrapingState s' = scrapingState s"
  by (auto simp: initialize_def close_def split: option.splits)

lemma scrapingState_tryDetails [simp]:
  "scrapingState (snd (snd (tryDetails a i s))) = scrapingState s"
  by (cases "initialize (initializeError a) s")
     (auto simp: tryDetails_def newPage_def split: sum.splits bool.splits option.splits
        dest: initialize_state)

lemma scrapingState_catchDetails [simp]:
  "scrapingState (snd (catchDetails a msg s)) = scrapingState s"
  by (cases "initialize (recoveryError a) s")
     (auto simp: catchDetails_def split: sum.splits option.splits dest: initialize_state)

lemma scrapingState_detailsLoop [simp]:
  "scrapingState (snd (snd (detailsLoop r k env i s))) = scrapingState s"
proof (induction r arbitrary: k s)
  case 0
  show ?case by simp
next
  case (Suc r)
  obtain t n s1 where t: "tryDetails (env k) i s = (t, n, s1)"
    by (cases "tryDetails (env k) i s") auto
  then have s1: "scrapingState s1 = scrapingState s"
    using scrapingState_tryDetails [of "env k" i s] by simp
  obtain out s2 where o: "(case t of Inl msg \<Rightarrow> catchDetails (env k) msg s1 | Inr out \<Rightarrow> (out, s1)) = (out, s2)"
    by (cases "case t of Inl msg \<Rightarrow> catchDetails (env k) msg s1 | Inr out \<Rightarrow> (out, s1)") auto
  have s2: "scrapingState s2 = scrapingState s1"
  proof (cases t)
    case (Inl msg)
    with o scrapingState_catchDetails [of "env k" msg s1] show ?thesis by simp
  next
    case (Inr x)
    with o show ?thesis by simp
  qed
  from t o s1 s2 Suc.IH [of "k + 1" s2] show ?case
    by (cases out) (auto split: prod.splits)
qed

lemma scrapingState_scrapeBusinessDetails [simp]:
  "scrapingState (snd (snd (scrapeBusinessDetails env i s))) = scrapingState s"
  by (simp add: scrapeBusinessDetails_def)

lemma scrapingState_tryDetailsParallel [simp]:
  "scrapingState (snd (snd (snd (tryDetailsParallel a i ps)))) = scrapingState (snd ps)"
  by (auto simp: tryDetailsParallel_def newPage_def split: option.splits)

lemma scrapingState_parallelLoop [simp]:
  "scrapingState (snd (snd (parallelLoop r k env i ps))) = scrapingState (snd ps)"
proof (induction r arbitrary: k ps)
  case 0
  show ?case by simp
next
  case (Suc r)
  obtain t n ps1 where t: "tryDetailsParallel (env k) i ps = (t, n, ps1)"
    by (cases "tryDetailsParallel (env k) i ps") auto
  then have s1: "scrapingState (snd ps1) = scrapingState (snd ps)"
    using scrapingState_tryDetailsParallel [of "env k" i ps] by simp
  from t s1 Suc.IH [of "k + 1" ps1] show ?case
    by (cases "case t of Inl msg \<Rightarrow> Retry | Inr out \<Rightarrow> out") (auto split: prod.splits)
qed

lemma scrapingState_scrapeBusinessDetailsParallel [simp]:
  "scrapingState (snd (snd (scrapeBusinessDetailsParallel env i pg s))) = scrapingState s"
  by (cases pg) (simp_all add: scrapeBusinessDetailsParallel_def)

lemma scrapingState_openBatchPages [simp]:
  "scrapingState (snd (openBatchPages opening n i pages s)) = scrapingState s"
  by (induction n arbitrary: i pages s) (auto split: PageOpen.splits)

















subsection \<open>Example runs\<close>

text \<open>
  A run with nothing in its way: every target page loads and shows none of the
  selectors' elements (\<open>emptyDom\<close>), no control call arrives, the browser refuses
  auxiliary pages, so the batches are extracted sequentially.  The place anchors are the
  given links.
\<close>

definition okAttempt :: AttemptEnv where
  "okAttempt =
     \<lparr>browserConnected = True, initializeError = None, pageResponds = True,
      connectedForNewPage = True, newPageError = None, gotoError = None,
      pageTitle = ''Cafe - Google Maps'', pageUrl = ''https://www.google.com/maps/place/Cafe'',
      contentFound = True, evaluateError = None, dom = emptyDom, urlCoordinates = None,
      dateNow = 0, recoveryError = None\<rparr>"

definition plainRun :: "string list \<Rightarrow> RunEnv" where
  "plainRun links =
     \<lparr>searchGotoError = None, navigationArrivals = [], selectorArrivals = (\<lambda>selector. []),
      selectorFound = (\<lambda>selector. True), scroll = stallingSource, conservativeMode = False,
      scrollEndArrivals = [],
      harvest = \<lparr>directionAnchors = Some [], placeAnchors = Some (map Some links),
                  entryAnchors = Some []\<rparr>,
      pageValidAfterScroll = True, envMaxResults = Some 500, maxConcurrentScrapers = 3,
      batchArrivals = (\<lambda>b. []), batchResumeTicks = (\<lambda>b. []),
      healthCheckPasses = (\<lambda>b. True), healthRecoveryError = (\<lambda>b. None),
      pageOpening = (\<lambda>b i. NotConnected), attempts = (\<lambda>g k. okAttempt),
      itemArrivals = (\<lambda>g. []), parallelArrivals = (\<lambda>b. [])\<rparr>"

definition request :: "int \<Rightarrow> SearchParams" where
  "request n = \<lparr>location = ''Springfield'', categories = [], radius = 5000, maxResults = n\<rparr>"



definition stalledVars :: ScrollVars where
  "stalledVars =
     \<lparr>scrollAttempts = 6, consecutiveNoChange = 4, previousBusinessCount = 9,
      lastBusinessCount = 9, elapsed = 18000, timeoutFiredAt = None\<rparr>"

lemma stallingSource_scroll:
  assumes "page s \<noteq> None" "scrapingState s = running"
  shows "scrollAndLoadAllResults stallingSource False s = Some (stalledVars, s)"
  using assms
  by (simp add: scrollAndLoadAllResults_def initialScrollVars_def stalledVars_def
        maxScrollAttempts_def maxConsecutiveNoChange_def scrollIteration_def stallingSource_def
        isCancelled_def isPaused_def passTime_def scrollTimeoutCallback_def Let_def)





definition searchingSnapshot :: ScrapingProgress where
  "searchingSnapshot =
     \<lparr>status = st_searching, currentStep = ''Searching for businesses...'',
      progress = Num 0, totalFound = 0, scraped = 0, errors = []\<rparr>"

lemma quiet_discover:
  assumes "page s \<noteq> None" "searchGotoError e = None" "navigationArrivals e = []"
    "selectorArrivals e = (\<lambda>selector. [])" "selectorFound e ''[role=\"main\"]''"
    "scroll e = stallingSource" "\<not> conservativeMode e" "scrollEndArrivals e = []"
  shows "discover e s =
     (Inr (harvestLinks (harvest e)),
      updateProgress searchingSnapshot
        (s\<lparr>scrapingState := running, scrapedBusinesses := [], currentBusinessIndex := 0\<rparr>))"
proof -
  define s1 where "s1 = updateProgress searchingSnapshot
        (s\<lparr>scrapingState := running, scrapedBusinesses := [], currentBusinessIndex := 0\<rparr>)"
  have p1: "page s1 \<noteq> None" "scrapingState s1 = running"
    using assms(1) by (simp_all add: s1_def updateProgress_def)
  have w: "waitForResults e resultSelectors s1 = (Some True, s1)"
    using assms(4,5) p1 by (simp add: resultSelectors_def isCancelled_def)
  from stallingSource_scroll [OF p1] assms(6,7)
  have sc: "scrollAndLoadAllResults (scroll e) (conservativeMode e) s1 = Some (stalledVars, s1)"
    by simp
  from assms(1) obtain pg where pg: "page s = Some pg" by auto
  show ?thesis
    unfolding discover_def pg
    using assms(2,3,8) w sc p1
    by (simp add: Let_def s1_def [symmetric] searchingSnapshot_def [symmetric] isCancelled_def)
qed













lemma plain_env:
  "searchGotoError (plainRun links) = None" "navigationArrivals (plainRun links) = []"
  "selectorArrivals (plainRun links) = (\<lambda>selector. [])"
  "selectorFound (plainRun links) ''[role=\"main\"]''"
  "scroll (plainRun links) = stallingSource" "\<not> conservativeMode (plainRun links)"
  "scrollEndArrivals (plainRun links) = []"
  by (simp_all add: plainRun_def)




text \<open>The status and percentage of each emitted snapshot, oldest first.\<close>

definition snapshots :: "GoogleMapsScraper \<Rightarrow> (ProgressStatus \<times> jsnum) list" where
  "snapshots s = map (\<lambda>p. (status p, progress p)) (emitted s)"


lemma snapshots_updateProgress [simp]:
  "snapshots (updateProgress p s) = snapshots s @ [(status p, progress p)]"
  by (simp add: snapshots_def updateProgress_def)

lemma snapshots_scrapingState [simp]: "snapshots (s\<lparr>scrapingState := x\<rparr>) = snapshots s"
  by (simp add: snapshots_def)





section \<open>The cap on the result set\<close>




section \<open>Progress percentages\<close>



section \<open>Shape of the extracted records\<close>









section \<open>Pages of a parallel batch\<close>













section \<open>The scrape route (\<open>src/app/api/scrape/route.ts\<close>)\<close>

text \<open>
  The terminal payload of a request: the \<open>complete\<close> or \<open>error\<close> event of the event stream
  (with the businesses and their count, or the error category and message), or the JSON
  response (success with the businesses and their count, or an error category with
  its HTTP status).
\<close>

datatype Payload =
  SseComplete "BusinessData list" nat
  | SseError string string
  | JsonSuccess "BusinessData list" nat
  | JsonError string nat

text \<open>\<open>new GoogleMapsScraper(callback)\<close>: no browser yet.\<close>

definition constructedScraper :: GoogleMapsScraper where
  "constructedScraper =
     \<lparr>scrapingState = running, scrapedBusinesses = [], currentBusinessIndex = 0,
      totalBusinessesToScrape = 0, businessLinks = [], emitted = [],
      browser = False, page = None, openPages = [], nextPageId = 0\<rparr>"

text \<open>
  The streaming branch (lines 113 to 143): \<open>initialize\<close>, \<open>scrapeBusinesses\<close>, then the
  \<open>complete\<close> event, or the \<open>error\<close> event for anything thrown.  A run that never returns
  sends no terminal event.
\<close>

definition streamingBranch :: "string option \<Rightarrow> RunEnv \<Rightarrow> SearchParams \<Rightarrow> Payload option" where
  "streamingBranch launchFailure e params =
     (case initialize launchFailure constructedScraper of
        (Inl msg, s) \<Rightarrow>
          Some (SseError ''Scraping Failed'' (if msg = [] then ''Unknown scraping error'' else msg))
      | (Inr _, s) \<Rightarrow>
          (case fst (scrapeBusinesses e params s) of
             Returns businesses \<Rightarrow> Some (SseComplete businesses (length businesses))
           | Throws msg \<Rightarrow>
               Some (SseError ''Scraping Failed''
                       (if msg = [] then ''Unknown scraping error'' else msg))
           | Hangs \<Rightarrow> None))"

text \<open>The \<open>catch\<close> block of the non-streaming branch (lines 238 to 357).\<close>

definition classifyScrapingError :: "string \<Rightarrow> Payload" where
  "classifyScrapingError msg =
     (if str_includes msg ''Browser initialization failed'' then JsonError ''Browser Setup Error'' 500
      else if str_includes msg ''timeout'' then JsonError ''Scraping Timeout'' 408
      else if str_includes msg ''No search results found'' \<or> str_includes msg ''No businesses found''
        then JsonError ''No Results Found'' 404
      else if str_includes msg ''blocked'' \<or> str_includes msg ''captcha''
              \<or> str_includes msg ''rate limit''
        then JsonError ''Access Blocked'' 429
      else if str_includes msg ''navigation'' \<or> str_includes msg ''page''
              \<or> str_includes msg ''net::''
        then JsonError ''Connection Error'' 502
      else JsonError ''Scraping Failed'' 500)"

text \<open>
  The non-streaming branch (lines 190 to 236) after the configuration checks.
  \<open>timerFirst\<close> tells that the timeout of \<open>Promise.race\<close> fires before the run settles,
  which is the case for a run that never returns.
\<close>

definition nonStreamingBranch ::
  "string option \<Rightarrow> bool \<Rightarrow> RunEnv \<Rightarrow> SearchParams \<Rightarrow> Payload" where
  "nonStreamingBranch launchFailure timerFirst e params =
     (case initialize launchFailure constructedScraper of
        (Inl msg, s) \<Rightarrow> classifyScrapingError msg
      | (Inr _, s) \<Rightarrow>
          (case (if timerFirst then Throws ''Scraping operation timed out''
                 else fst (scrapeBusinesses e params s)) of
             Hangs \<Rightarrow> classifyScrapingError ''Scraping operation timed out''
           | Throws msg \<Rightarrow> classifyScrapingError msg
           | Returns allBusinesses \<Rightarrow>
               (let businesses = slice0 allBusinesses (Some (maxResults params))
                in if length businesses = 0 then JsonError ''No Results Found'' 404
                   else JsonSuccess businesses (length businesses))))"

lemma initialize_constructed: "initialize None constructedScraper = (Inr (), newScraper)"
  by (simp add: initialize_def constructedScraper_def newScraper_def)

definition noBusinessesSnapshot :: ScrapingProgress where
  "noBusinessesSnapshot =
     \<lparr>status = st_completed, currentStep = ''No businesses found'', progress = Num 100,
      totalFound = 0, scraped = 0, errors = [''No business links found in search results'']\<rparr>"

lemma harvest_none: "harvestLinks (harvest (plainRun [])) = []"
  by (simp add: plainRun_def harvestLinks_def filterBoolean_def List.map_filter_def
        Array_from_Set_def)

text \<open>
  C9 (as the claim states it, refuted): on a results page where no strategy finds an
  anchor, the streaming branch ends with the \<open>complete\<close> event, success with an empty list
  and count 0, not with an error.
\<close>

theorem C9_streaming_reports_empty_success:
  "harvestLinks (harvest (plainRun [])) = []
   \<and> streamingBranch None (plainRun []) (request 10) = Some (SseComplete [] 0)"
proof -
  have n: "page newScraper \<noteq> None" by (simp add: newScraper_def)
  have "fst (scrapeBusinesses (plainRun []) (request 10) newScraper) = Returns []"
    unfolding scrapeBusinesses_def quiet_discover [OF n plain_env] harvest_none
    by (simp add: extractAll_def)
  then show ?thesis
    by (simp add: harvest_none streamingBranch_def initialize_constructed)
qed

text \<open>
  C9 (amended): when discovery yields zero target links, \<open>scrapeBusinesses\<close> emits a
  \<open>completed\<close> snapshot at 100 percent carrying the error string and returns the empty
  list; the non-streaming branch turns the empty list into the \<open>No Results Found\<close> error
  (status 404), and the streaming branch reports a successful completion with zero
  businesses.
\<close>

theorem C9_zero_links_by_branch:
  "discover e newScraper = (Inr [], s1) \<longrightarrow>
     scrapeBusinesses e params newScraper = (Returns [], updateProgress noBusinessesSnapshot s1)
     \<and> nonStreamingBranch None False e params = JsonError ''No Results Found'' 404
     \<and> streamingBranch None e params = Some (SseComplete [] 0)"
proof
  assume d: "discover e newScraper = (Inr [], s1)"
  then have r: "scrapeBusinesses e params newScraper
      = (Returns [], updateProgress noBusinessesSnapshot s1)"
    by (simp add: scrapeBusinesses_def extractAll_def noBusinessesSnapshot_def)
  then show "scrapeBusinesses e params newScraper = (Returns [], updateProgress noBusinessesSnapshot s1)
     \<and> nonStreamingBranch None False e params = JsonError ''No Results Found'' 404
     \<and> streamingBranch None e params = Some (SseComplete [] 0)"
    by (simp add: nonStreamingBranch_def streamingBranch_def initialize_constructed)
qed

theorem C9_no_anchor_witness:
  "scrapeBusinesses (plainRun []) (request 10) newScraper
     = (Returns [],
        updateProgress noBusinessesSnapshot
          (updateProgress searchingSnapshot
             (newScraper\<lparr>scrapingState := running, scrapedBusinesses := [],
                          currentBusinessIndex := 0\<rparr>)))
   \<and> nonStreamingBranch None False (plainRun []) (request 10) = JsonError ''No Results Found'' 404
   \<and> streamingBranch None (plainRun []) (request 10) = Some (SseComplete [] 0)"
proof -
  have n: "page newScraper \<noteq> None" by (simp add: newScraper_def)
  have d: "discover (plainRun []) newScraper =
      (Inr [], updateProgress searchingSnapshot
                 (newScraper\<lparr>scrapingState := running, scrapedBusinesses := [],
                              currentBusinessIndex := 0\<rparr>))"
    unfolding quiet_discover [OF n plain_env] harvest_none ..
  from C9_zero_links_by_branch [of "plainRun []" _ "request 10"] d
  show ?thesis by blast
qed

end
